theory Spec2Isabelle
  imports Complex_Main
begin

section \<open>Data model of calc.py\<close>

text \<open>
  \<^verbatim>\<open>class TransactionType(Enum)\<close>: the closed set of transaction kinds.
\<close>

datatype TransactionType = Receive | Convert | Send

text \<open>
  A \<^verbatim>\<open>datetime\<close> is a count of microseconds on the proleptic calendar (all timestamps of one
  file are taken in one time zone, so that Python compares them by this count), and a
  \<^verbatim>\<open>date\<close> is a count of days. \<^verbatim>\<open>datetime.date()\<close> drops the time of day.
\<close>

type_synonym datetime = int
type_synonym date = int

definition date_of :: "datetime \<Rightarrow> date" where
  "date_of ts = ts div 86400000000"

text \<open>
  Python floats are modelled as exact rationals: rounding, overflow and the values inf and
  nan are outside the model.
\<close>

type_synonym pyfloat = rat

text \<open>\<^verbatim>\<open>class TransactionModel(BaseModel)\<close>, every field present.\<close>

record TransactionModel =
  timestamp :: datetime
  transaction_type :: TransactionType
  asset :: string
  quantity_transacted :: pyfloat
  spot_price :: pyfloat
  "notes" :: string

text \<open>
  The exceptions the modelled code raises. \<open>NonFiniteFloat\<close> is no Python exception: it
  marks a run in which \<^verbatim>\<open>float()\<close> read \<^verbatim>\<open>inf\<close> or \<^verbatim>\<open>nan\<close> from a note, where Python
  goes on with a value that a rational cannot hold and this model stops.
\<close>

datatype error =
  ValueError | IndexError | ZeroDivisionError | TypeError | KeyError
  | UnboundLocalError | NonFiniteFloat

section \<open>The string builtins used by the conversion splitter\<close>

subsection \<open>\<^verbatim>\<open>str.removeprefix\<close> and \<^verbatim>\<open>str.split(sep=" ")\<close>\<close>

definition removeprefix :: "string \<Rightarrow> string \<Rightarrow> string" where
  "removeprefix s p = (if take (length p) s = p then drop (length p) s else s)"

text \<open>
  Splitting at every single space: adjacent spaces give empty tokens, and the result
  always has at least one token (\<^verbatim>\<open>"".split(" ") == [""]\<close>).
\<close>

fun split_sp :: "string \<Rightarrow> string list" where
  "split_sp [] = [[]]"
| "split_sp (c # cs) =
     (if c = CHR '' '' then [] # split_sp cs
      else (case split_sp cs of w # ws \<Rightarrow> (c # w) # ws | [] \<Rightarrow> [[c]]))"

subsection \<open>Formatting a float in an f-string\<close>

definition digit_char :: "nat \<Rightarrow> char" where
  "digit_char d = ''0123456789'' ! (d mod 10)"

fun nat_str :: "nat \<Rightarrow> string" where
  "nat_str n = (if n < 10 then [digit_char n] else nat_str (n div 10) @ [digit_char (n mod 10)])"

fun frac_digits :: "nat \<Rightarrow> rat \<Rightarrow> string" where
  "frac_digits 0 f = []"
| "frac_digits (Suc k) f =
     (if f = 0 then []
      else (let d = nat \<lfloor>f * 10\<rfloor> in digit_char d # frac_digits k (f * 10 - of_nat d)))"

text \<open>
  \<^verbatim>\<open>f"{x}"\<close> for a float \<^verbatim>\<open>x\<close> is \<^verbatim>\<open>repr(x)\<close>: the shortest decimal string that reads back
  as \<^verbatim>\<open>x\<close>, always with a fractional part (\<^verbatim>\<open>1.0\<close>, \<^verbatim>\<open>0.5\<close>, \<^verbatim>\<open>20.0\<close>). The model
  prints the positional decimal expansion, which is what Python prints for a value with
  a finite decimal expansion of at most 15 significant digits and a magnitude from
  0.0001 up to, but not including, 10 to the power 16; Python's exponent notation beyond
  that range is not modelled.
\<close>

definition float_str :: "pyfloat \<Rightarrow> string" where
  "float_str x =
     (let a = \<bar>x\<bar>; n = nat \<lfloor>a\<rfloor>; f = frac_digits 17 (a - of_nat n)
      in (if x < 0 then ''-'' else '''') @ nat_str n @ ''.'' @ (if f = [] then ''0'' else f))"

subsection \<open>\<^verbatim>\<open>float(s)\<close>\<close>

datatype float_lit = NotFloat | Special | Number pyfloat

definition is_space :: "char \<Rightarrow> bool" where
  "is_space c = (c \<in> set [CHR '' '', CHR 0x09, CHR 0x0A, CHR 0x0B, CHR 0x0C, CHR 0x0D])"

definition strip :: "string \<Rightarrow> string" where
  "strip s = rev (dropWhile is_space (rev (dropWhile is_space s)))"

definition is_digit :: "char \<Rightarrow> bool" where
  "is_digit c = (c \<in> set ''0123456789'')"

definition digit_val :: "char \<Rightarrow> nat" where
  "digit_val c = (case map_of (zip ''0123456789'' [0 ..< 10]) c of Some d \<Rightarrow> d | None \<Rightarrow> 0)"

text \<open>
  \<^verbatim>\<open>digitpart ::= digit (["_"] digit)*\<close>: \<open>digitpart\<close> reads the digits of such a string
  (single underscores between digits are dropped) and is \<open>None\<close> on anything else.
\<close>

fun digits_tail :: "string \<Rightarrow> string option" where
  "digits_tail [] = Some []"
| "digits_tail [c] = (if is_digit c then Some [c] else None)"
| "digits_tail (c # d # cs) =
     (if c = CHR ''_'' then (if is_digit d then digits_tail (d # cs) else None)
      else if is_digit c then map_option ((#) c) (digits_tail (d # cs))
      else None)"

definition digitpart :: "string \<Rightarrow> string option" where
  "digitpart s = (case s of [] \<Rightarrow> None | c # cs \<Rightarrow> if is_digit c then digits_tail s else None)"

definition digits_nat :: "string \<Rightarrow> nat" where
  "digits_nat ds = foldl (\<lambda>n c. 10 * n + digit_val c) 0 ds"

text \<open>\<^verbatim>\<open>number ::= [digitpart] "." digitpart | digitpart ["."]\<close>, as a rational.\<close>

definition mantissa :: "string \<Rightarrow> rat option" where
  "mantissa s =
     (let ip = takeWhile (\<lambda>c. c \<noteq> CHR ''.'') s; rest = dropWhile (\<lambda>c. c \<noteq> CHR ''.'') s
      in case rest of
           [] \<Rightarrow> map_option (\<lambda>ds. of_nat (digits_nat ds)) (digitpart ip)
         | _ # fp \<Rightarrow>
             (if ip = [] then
                map_option (\<lambda>fs. of_nat (digits_nat fs) / 10 ^ length fs) (digitpart fp)
              else (case digitpart ip of
                      None \<Rightarrow> None
                    | Some ds \<Rightarrow>
                        (if fp = [] then Some (of_nat (digits_nat ds))
                         else map_option
                                (\<lambda>fs. of_nat (digits_nat ds) + of_nat (digits_nat fs) / 10 ^ length fs)
                                (digitpart fp)))))"

text \<open>\<^verbatim>\<open>exponent ::= ("e" | "E") [sign] digitpart\<close>, the text after the letter.\<close>

definition exponent :: "string \<Rightarrow> int option" where
  "exponent s =
     (case s of
        c # cs \<Rightarrow>
          (if c = CHR ''-'' then map_option (\<lambda>ds. - int (digits_nat ds)) (digitpart cs)
           else if c = CHR ''+'' then map_option (\<lambda>ds. int (digits_nat ds)) (digitpart cs)
           else map_option (\<lambda>ds. int (digits_nat ds)) (digitpart s))
      | [] \<Rightarrow> None)"

definition is_e :: "char \<Rightarrow> bool" where
  "is_e c = (c = CHR ''e'' \<or> c = CHR ''E'')"

definition floatnumber :: "string \<Rightarrow> rat option" where
  "floatnumber s =
     (let m = takeWhile (\<lambda>c. \<not> is_e c) s; rest = dropWhile (\<lambda>c. \<not> is_e c) s
      in case rest of
           [] \<Rightarrow> mantissa m
         | _ # ex \<Rightarrow>
             (case (mantissa m, exponent ex) of
                (Some v, Some k) \<Rightarrow> Some (if 0 \<le> k then v * 10 ^ nat k else v / 10 ^ nat (- k))
              | _ \<Rightarrow> None))"

definition lower :: "string \<Rightarrow> string" where
  "lower s =
     map (\<lambda>c. case map_of (zip ''ABCDEFGHIJKLMNOPQRSTUVWXYZ'' ''abcdefghijklmnopqrstuvwxyz'') c of
                 Some l \<Rightarrow> l | None \<Rightarrow> c) s"

text \<open>
  \<^verbatim>\<open>float(s)\<close> on a string: surrounding whitespace is stripped, a sign is read, then
  \<^verbatim>\<open>inf\<close>, \<^verbatim>\<open>infinity\<close> or \<^verbatim>\<open>nan\<close> in any case (\<open>Special\<close>), or a decimal number with
  an optional exponent (\<open>Number\<close>, its exact value); anything else raises ValueError
  (\<open>NotFloat\<close>). Strings are ASCII.
\<close>

definition float_of_str :: "string \<Rightarrow> float_lit" where
  "float_of_str s =
     (let t = strip s;
          neg = (t \<noteq> [] \<and> hd t = CHR ''-'');
          u = (if t \<noteq> [] \<and> (hd t = CHR ''-'' \<or> hd t = CHR ''+'') then tl t else t)
      in if lower u \<in> set [''inf'', ''infinity'', ''nan''] then Special
         else (case floatnumber u of
                 None \<Rightarrow> NotFloat
               | Some v \<Rightarrow> Number (if neg then - v else v)))"

section \<open>The conversion splitter\<close>

text \<open>
  Lines 42-43 of \<^verbatim>\<open>_split_conversion\<close>: the tokens of the note once the expected prefix
  \<^verbatim>\<open>f"Converted {tx.quantity_transacted} {tx.asset} to "\<close> is removed, if it is there.
\<close>

definition parsed_notes :: "TransactionModel \<Rightarrow> string list" where
  "parsed_notes tx =
     split_sp (removeprefix (notes tx)
       (''Converted '' @ float_str (quantity_transacted tx) @ '' '' @ asset tx @ '' to ''))"

text \<open>
  The body of the \<^verbatim>\<open>Convert\<close> branch: the record itself retyped as \<open>Send\<close>, and its copy
  with the quantity \<^verbatim>\<open>float(parsed[0])\<close>, the asset \<^verbatim>\<open>parsed[1]\<close>, the type \<open>Receive\<close> and the
  price \<^verbatim>\<open>value_transacted / quantity\<close>. The three statements fail in this order:
  \<^verbatim>\<open>float\<close> (ValueError), the index (IndexError), the division (ZeroDivisionError).
\<close>

definition convert_halves :: "TransactionModel \<Rightarrow> error + TransactionModel \<times> TransactionModel" where
  "convert_halves tx =
     (let parsed = parsed_notes tx;
          tx1 = tx\<lparr>transaction_type := Send\<rparr>;
          value_transacted = spot_price tx1 * quantity_transacted tx1
      in case float_of_str (parsed ! 0) of
           NotFloat \<Rightarrow> Inl ValueError
         | lit \<Rightarrow>
             (if length parsed < 2 then Inl IndexError
              else (case lit of
                      Number q \<Rightarrow>
                        (if q = 0 then Inl ZeroDivisionError
                         else Inr (tx1,
                                tx1\<lparr>quantity_transacted := q, asset := parsed ! 1,
                                    transaction_type := Receive,
                                    spot_price := value_transacted / q\<rparr>))
                    | _ \<Rightarrow> Inl NonFiniteFloat)))"

text \<open>
  The generator \<^verbatim>\<open>_split_conversion\<close>, run to its end as \<^verbatim>\<open>sorted\<close> runs it: the records
  it yields, or the exception that ends it (the records yielded before are lost with it).
\<close>

fun split_conversion :: "TransactionModel list \<Rightarrow> error + TransactionModel list" where
  "split_conversion [] = Inr []"
| "split_conversion (tx # txns) =
     (if transaction_type tx = Convert then
        (case convert_halves tx of
           Inl e \<Rightarrow> Inl e
         | Inr (s, r) \<Rightarrow>
             (case split_conversion txns of Inl e \<Rightarrow> Inl e | Inr rest \<Rightarrow> Inr (s # r # rest)))
      else (case split_conversion txns of Inl e \<Rightarrow> Inl e | Inr rest \<Rightarrow> Inr (tx # rest)))"

section \<open>The filter stage\<close>

text \<open>
  \<^verbatim>\<open>tx.transaction_type == transaction_type or transaction_type == None\<close> and
  \<^verbatim>\<open>tx.asset == asset or asset == None\<close>: \<^verbatim>\<open>==\<close> never raises.
\<close>

definition filter_transaction_type ::
  "TransactionType option \<Rightarrow> TransactionModel list \<Rightarrow> TransactionModel list" where
  "filter_transaction_type type_arg txns =
     filter (\<lambda>tx. Some (transaction_type tx) = type_arg \<or> type_arg = None) txns"

definition filter_asset :: "string option \<Rightarrow> TransactionModel list \<Rightarrow> TransactionModel list" where
  "filter_asset asset_arg txns = filter (\<lambda>tx. Some (asset tx) = asset_arg \<or> asset_arg = None) txns"

text \<open>
  \<^verbatim>\<open>tx.timestamp.date() <= date or date == None\<close>: the comparison is evaluated first, and
  \<^verbatim>\<open><=\<close> between a \<^verbatim>\<open>date\<close> and \<^verbatim>\<open>None\<close> raises TypeError before \<^verbatim>\<open>date == None\<close> is
  looked at.
\<close>

definition end_date_cond :: "date option \<Rightarrow> TransactionModel \<Rightarrow> error + bool" where
  "end_date_cond date_arg tx =
     (case date_arg of
        None \<Rightarrow> Inl TypeError
      | Some d \<Rightarrow> Inr (date_of (timestamp tx) \<le> d \<or> date_arg = None))"

fun filter_end_date :: "date option \<Rightarrow> TransactionModel list \<Rightarrow> error + TransactionModel list" where
  "filter_end_date date_arg [] = Inr []"
| "filter_end_date date_arg (tx # txns) =
     (case end_date_cond date_arg tx of
        Inl e \<Rightarrow> Inl e
      | Inr keep \<Rightarrow>
          (case filter_end_date date_arg txns of
             Inl e \<Rightarrow> Inl e
           | Inr rest \<Rightarrow> Inr (if keep then tx # rest else rest)))"

section \<open>The ledger assembler\<close>

text \<open>\<^verbatim>\<open>TransactionType(type)\<close> on a string: the member with that value, or ValueError.\<close>

definition TransactionType_of :: "string \<Rightarrow> error + TransactionType" where
  "TransactionType_of s =
     (if s = ''Receive'' then Inr Receive
      else if s = ''Convert'' then Inr Convert
      else if s = ''Send'' then Inr Send
      else Inl ValueError)"

text \<open>
  \<^verbatim>\<open>parse\<close>, with the records that \<^verbatim>\<open>_read_csv\<close> returns in place of the file path. The
  type argument is the string of the command line (an empty string is falsy, like
  \<^verbatim>\<open>None\<close>). \<open>parse_unsorted\<close> is the body up to the generator handed to \<^verbatim>\<open>sorted\<close>, run
  to its end.
\<close>

definition parse_unsorted ::
  "TransactionModel list \<Rightarrow> string option \<Rightarrow> string option \<Rightarrow> date option
     \<Rightarrow> error + TransactionModel list" where
  "parse_unsorted raw type_arg asset_arg end_date =
     (case (case type_arg of
              None \<Rightarrow> Inr None
            | Some s \<Rightarrow> if s = [] then Inr None else map_sum id Some (TransactionType_of s)) of
        Inl e \<Rightarrow> Inl e
      | Inr ty \<Rightarrow>
          (case filter_end_date end_date raw of
             Inl e \<Rightarrow> Inl e
           | Inr txns \<Rightarrow>
               split_conversion (filter_asset asset_arg (filter_transaction_type ty txns))))"

text \<open>\<^verbatim>\<open>sorted(txns, key=lambda x: x.timestamp)\<close>: a stable sort by the key.\<close>

definition parse ::
  "TransactionModel list \<Rightarrow> string option \<Rightarrow> string option \<Rightarrow> date option
     \<Rightarrow> error + TransactionModel list" where
  "parse raw type_arg asset_arg end_date =
     (case parse_unsorted raw type_arg asset_arg end_date of
        Inl e \<Rightarrow> Inl e
      | Inr txns \<Rightarrow> Inr (sort_key timestamp txns))"

section \<open>The three commands\<close>

subsection \<open>\<^verbatim>\<open>Cli.sum\<close>\<close>

text \<open>
  \<^verbatim>\<open>txns = parse(filepath, type, asset)\<close>: the \<^verbatim>\<open>end_date\<close> argument of the command is not
  handed on. The result is the printed total.
\<close>

definition Cli_sum ::
  "TransactionModel list \<Rightarrow> string option \<Rightarrow> string option \<Rightarrow> date option \<Rightarrow> error + pyfloat" where
  "Cli_sum raw type_arg asset_arg end_date =
     (case parse raw type_arg asset_arg None of
        Inl e \<Rightarrow> Inl e
      | Inr txns \<Rightarrow>
          Inr (foldl (\<lambda>total tx. total + spot_price tx * quantity_transacted tx) 0 txns))"

subsection \<open>The loop of \<^verbatim>\<open>Cli.cg\<close>\<close>

record cg_state =
  gains :: "string \<rightharpoonup> pyfloat"
  cg_asset_value :: "string \<rightharpoonup> pyfloat"

definition cg_init :: cg_state where
  "cg_init = \<lparr>gains = Map.empty, cg_asset_value = Map.empty\<rparr>"

text \<open>
  One pass of the loop body. \<^verbatim>\<open>asset_value.get(tx.asset) == 0\<close> decides \<^verbatim>\<open>first_purchase\<close>;
  \<^verbatim>\<open>asset_value[tx.asset]\<close> and \<^verbatim>\<open>gains[tx.asset]\<close> raise KeyError on a missing key.
\<close>

definition cg_step :: "cg_state \<Rightarrow> TransactionModel \<Rightarrow> error + cg_state" where
  "cg_step st tx =
     (let st1 = (if gains st (asset tx) = None
                 then st\<lparr>gains := (gains st)(asset tx \<mapsto> 0),
                         cg_asset_value := (cg_asset_value st)(asset tx \<mapsto> 0)\<rparr>
                 else st);
          first_purchase = (cg_asset_value st1 (asset tx) = Some 0)
      in case (if \<not> first_purchase
               then (case cg_asset_value st1 (asset tx) of
                       None \<Rightarrow> Inl KeyError
                     | Some v \<Rightarrow> Inr ((spot_price tx - v) * quantity_transacted tx))
               else Inr 0) of
           Inl e \<Rightarrow> Inl e
         | Inr actual_gain \<Rightarrow>
             (case gains st1 (asset tx) of
                None \<Rightarrow> Inl KeyError
              | Some g \<Rightarrow>
                  Inr (st1\<lparr>cg_asset_value := (cg_asset_value st1)(asset tx \<mapsto> spot_price tx),
                           gains := (gains st1)(asset tx \<mapsto> g + actual_gain)\<rparr>)))"

fun cg_loop :: "cg_state \<Rightarrow> TransactionModel list \<Rightarrow> error + cg_state" where
  "cg_loop st [] = Inr st"
| "cg_loop st (tx # txns) =
     (case cg_step st tx of Inl e \<Rightarrow> Inl e | Inr st' \<Rightarrow> cg_loop st' txns)"

text \<open>The printed mapping \<^verbatim>\<open>gains\<close> for a ledger.\<close>

definition cg_gains :: "TransactionModel list \<Rightarrow> error + (string \<rightharpoonup> pyfloat)" where
  "cg_gains txns = map_sum id gains (cg_loop cg_init txns)"

text \<open>
  \<^verbatim>\<open>Cli.cg\<close>: \<^verbatim>\<open>parse(filepath, asset, end_date=end_date)\<close> hands the asset argument on in the
  place of the type. The end date is taken as read by \<^verbatim>\<open>date.fromisoformat\<close>. The result
  is the printed mapping and the total over its values, the keys in the order of their
  first appearance.
\<close>

definition Cli_cg ::
  "TransactionModel list \<Rightarrow> string option \<Rightarrow> date option
     \<Rightarrow> error + (string \<rightharpoonup> pyfloat) \<times> pyfloat" where
  "Cli_cg raw asset_arg end_date =
     (case parse raw asset_arg None end_date of
        Inl e \<Rightarrow> Inl e
      | Inr txns \<Rightarrow>
          (case cg_gains txns of
             Inl e \<Rightarrow> Inl e
           | Inr g \<Rightarrow>
               Inr (g, foldl (\<lambda>total k. case g k of Some gain \<Rightarrow> total + gain | None \<Rightarrow> total)
                         0 (rev (remdups (rev (map asset txns)))))))"

subsection \<open>\<^verbatim>\<open>Cli.view\<close>\<close>

text \<open>
  The local variables of the loop. \<^verbatim>\<open>amount\<close> is unbound (\<open>None\<close>) until the first
  assignment to it succeeds.
\<close>

record view_state =
  total :: "string \<rightharpoonup> pyfloat"
  balance :: "string \<rightharpoonup> pyfloat"
  asset_value :: "string \<rightharpoonup> pyfloat"
  amount :: "pyfloat option"

definition view_init :: view_state where
  "view_init = \<lparr>total = Map.empty, balance = Map.empty, asset_value = Map.empty, amount = None\<rparr>"

text \<open>
  One pass of the loop body. \<^verbatim>\<open>not total.get(tx.asset)\<close> holds for a missing key and for
  a total of zero. In the \<^verbatim>\<open>else\<close> arm \<^verbatim>\<open>-1 * amount\<close> reads the variable \<^verbatim>\<open>amount\<close> of the
  pass before, and raises UnboundLocalError when there was none.
\<close>

definition view_step :: "view_state \<Rightarrow> TransactionModel \<Rightarrow> error + view_state" where
  "view_step st tx =
     (let st1 = (if total st (asset tx) = None \<or> total st (asset tx) = Some 0
                 then st\<lparr>total := (total st)(asset tx \<mapsto> 0)\<rparr> else st);
          st2 = st1\<lparr>asset_value := (asset_value st1)(asset tx \<mapsto> spot_price tx)\<rparr>
      in case (if transaction_type tx = Receive then Inr (quantity_transacted tx)
               else (case amount st2 of
                       None \<Rightarrow> Inl UnboundLocalError
                     | Some a \<Rightarrow> Inr (- 1 * a))) of
           Inl e \<Rightarrow> Inl e
         | Inr am \<Rightarrow>
             (case total st2 (asset tx) of
                None \<Rightarrow> Inl KeyError
              | Some t \<Rightarrow>
                  (let st3 = st2\<lparr>amount := Some am, total := (total st2)(asset tx \<mapsto> t + am)\<rparr>
                   in case asset_value st3 (asset tx) of
                        None \<Rightarrow> Inl KeyError
                      | Some p \<Rightarrow>
                          Inr (st3\<lparr>balance := (balance st3)(asset tx \<mapsto> (t + am) * p)\<rparr>))))"

fun view_loop :: "view_state \<Rightarrow> TransactionModel list \<Rightarrow> error + view_state" where
  "view_loop st [] = Inr st"
| "view_loop st (tx # txns) =
     (case view_step st tx of Inl e \<Rightarrow> Inl e | Inr st' \<Rightarrow> view_loop st' txns)"

text \<open>The printed mapping \<^verbatim>\<open>balance\<close> for a ledger.\<close>

definition view_balances :: "TransactionModel list \<Rightarrow> error + (string \<rightharpoonup> pyfloat)" where
  "view_balances txns = map_sum id balance (view_loop view_init txns)"

text \<open>
  \<^verbatim>\<open>Cli.view\<close>: \<^verbatim>\<open>parse(filepath, asset)\<close> hands the asset argument on in the place of the
  type, and no end date.
\<close>

definition Cli_view ::
  "TransactionModel list \<Rightarrow> string option \<Rightarrow> string option \<Rightarrow> date option
     \<Rightarrow> error + (string \<rightharpoonup> pyfloat)" where
  "Cli_view raw type_arg asset_arg end_date =
     (case parse raw asset_arg None None of
        Inl e \<Rightarrow> Inl e
      | Inr txns \<Rightarrow> view_balances txns)"

section \<open>Records of the scenarios\<close>

definition day :: int where
  "day = 86400000000"

definition eth_receive :: TransactionModel where
  "eth_receive = \<lparr>timestamp = 0, transaction_type = Receive, asset = ''ETH'',
     quantity_transacted = 2, spot_price = 10, notes = []\<rparr>"

definition eth_send :: TransactionModel where
  "eth_send = \<lparr>timestamp = day, transaction_type = Send, asset = ''ETH'',
     quantity_transacted = 1, spot_price = 10, notes = []\<rparr>"

definition btc_convert :: TransactionModel where
  "btc_convert = \<lparr>timestamp = 0, transaction_type = Convert, asset = ''BTC'',
     quantity_transacted = 1, spot_price = 100, notes = ''Converted 1 BTC to 20 ETH''\<rparr>"

definition btc_convert_half :: TransactionModel where
  "btc_convert_half = \<lparr>timestamp = day, transaction_type = Convert, asset = ''BTC'',
     quantity_transacted = 1 / 2, spot_price = 100, notes = ''Converted 0.5 BTC to 20 ETH''\<rparr>"

definition btc_free :: TransactionModel where
  "btc_free = \<lparr>timestamp = 0, transaction_type = Receive, asset = ''BTC'',
     quantity_transacted = 1, spot_price = 0, notes = []\<rparr>"

definition btc_bought :: TransactionModel where
  "btc_bought = \<lparr>timestamp = day, transaction_type = Receive, asset = ''BTC'',
     quantity_transacted = 1, spot_price = 100, notes = []\<rparr>"



section \<open>Facts about the builtins and the loops\<close>

lemma split_sp_nonempty: "split_sp s \<noteq> []"
  by (induction s) (auto split: list.splits)

lemma convert_halves_types:
  "convert_halves tx = Inr (s, r) \<Longrightarrow> transaction_type s = Send \<and> transaction_type r = Receive"
  by (auto simp: convert_halves_def Let_def split: float_lit.splits if_splits)

lemma split_conversion_types:
  "split_conversion txns = Inr out \<Longrightarrow> tx \<in> set out \<Longrightarrow> transaction_type tx \<noteq> Convert"
proof (induction txns arbitrary: out)
  case Nil
  then show ?case by simp
next
  case (Cons a txns)
  show ?case
  proof (cases "transaction_type a = Convert")
    case True
    with Cons.prems(1) obtain s r rest where h: "convert_halves a = Inr (s, r)"
      and rest: "split_conversion txns = Inr rest" and out: "out = s # r # rest"
      by (auto split: sum.splits prod.splits)
    from convert_halves_types[OF h] Cons.IH[OF rest] Cons.prems(2) out show ?thesis
      by auto
  next
    case False
    with Cons.prems(1) obtain rest where rest: "split_conversion txns = Inr rest"
      and out: "out = a # rest"
      by (auto split: sum.splits)
    from False Cons.IH[OF rest] Cons.prems(2) out show ?thesis by auto
  qed
qed



lemma view_step_bound:
  "amount st \<noteq> None \<or> transaction_type tx = Receive
     \<Longrightarrow> \<exists>st'. view_step st tx = Inr st' \<and> amount st' \<noteq> None"
  by (auto simp: view_step_def Let_def split: option.splits)

lemma view_loop_bound:
  "amount st \<noteq> None \<Longrightarrow> \<exists>st'. view_loop st txns = Inr st'"
proof (induction txns arbitrary: st)
  case Nil
  then show ?case by simp
next
  case (Cons a txns)
  from view_step_bound[of st a] Cons.prems obtain st1 where
    "view_step st a = Inr st1" "amount st1 \<noteq> None" by blast
  with Cons.IH[of st1] show ?case by auto
qed

section \<open>The balance valuator\<close>

text \<open>
  C1. On the ledger [Receive ETH 2 at price 10, Send ETH 1 at price 10] the loop of
  \<^verbatim>\<open>Cli.view\<close> does not subtract the quantity 1 of the Send record: \<^verbatim>\<open>-1 * amount\<close> is the
  negated amount of the pass before, 2, so the total is 0 and the printed mapping is
  ETH: 0, not ETH: 10. \<^verbatim>\<open>Cli.view\<close> itself, given these two records, stops before the
  loop, in the end-date filter.
\<close>

theorem view_scenario_balance:
  "view_balances [eth_receive, eth_send] = Inr [''ETH'' \<mapsto> 0]
   \<and> Cli_view [eth_receive, eth_send] None None None = Inl TypeError"
proof -
  have "view_balances [eth_receive, eth_send] = Inr [''ETH'' \<mapsto> 0]"
    by (simp add: view_balances_def view_init_def view_step_def eth_receive_def eth_send_def)
  moreover have "Cli_view [eth_receive, eth_send] None None None = Inl TypeError"
    by (simp add: Cli_view_def parse_def parse_unsorted_def end_date_cond_def)
  ultimately show ?thesis by simp
qed

text \<open>
  C10. A ledger whose first record is a Send makes the loop of \<^verbatim>\<open>Cli.view\<close> fail with
  UnboundLocalError, and the loop returns a balance mapping exactly for the empty ledger
  and for the ledgers whose first record is a Receive.
\<close>

theorem view_first_send_unbound:
  "(transaction_type tx = Send \<longrightarrow> view_balances (tx # txns) = Inl UnboundLocalError) \<and>
   ((\<exists>b. view_balances txns = Inr b) \<longleftrightarrow> (txns = [] \<or> transaction_type (hd txns) = Receive))"
proof (intro conjI impI)
  assume "transaction_type tx = Send"
  then show "view_balances (tx # txns) = Inl UnboundLocalError"
    by (simp add: view_balances_def view_init_def view_step_def)
next
  show "(\<exists>b. view_balances txns = Inr b) \<longleftrightarrow> (txns = [] \<or> transaction_type (hd txns) = Receive)"
  proof (cases txns)
    case Nil
    then show ?thesis by (simp add: view_balances_def)
  next
    case (Cons a rest)
    show ?thesis
    proof (cases "transaction_type a = Receive")
      case True
      from view_step_bound[of view_init a] True obtain st1 where
        s: "view_step view_init a = Inr st1" "amount st1 \<noteq> None" by blast
      from view_loop_bound[OF s(2), of rest] obtain st2 where "view_loop st1 rest = Inr st2" ..
      with s True Cons show ?thesis by (simp add: view_balances_def)
    next
      case False
      then have "view_step view_init a = Inl UnboundLocalError"
        by (simp add: view_step_def view_init_def)
      with False Cons show ?thesis by (simp add: view_balances_def)
    qed
  qed
qed

theorem view_first_send_unbound_witness:
  "transaction_type eth_send = Send
   \<and> view_balances [eth_send, eth_receive] = Inl UnboundLocalError
   \<and> transaction_type (hd [eth_receive, eth_send]) = Receive
   \<and> (\<exists>b. view_balances [eth_receive, eth_send] = Inr b)"
proof -
  have s: "transaction_type eth_send = Send" by (simp add: eth_send_def)
  have r: "transaction_type (hd [eth_receive, eth_send]) = Receive" by (simp add: eth_receive_def)
  from s view_first_send_unbound[of eth_send "[eth_receive]"]
  have 1: "view_balances [eth_send, eth_receive] = Inl UnboundLocalError" by simp
  from r view_first_send_unbound[of eth_send "[eth_receive, eth_send]"]
  have 2: "\<exists>b. view_balances [eth_receive, eth_send] = Inr b" by simp
  from s r 1 2 show ?thesis by simp
qed

section \<open>The end-date filter\<close>

text \<open>
  C2. With \<^verbatim>\<open>end_date\<close> unset, \<^verbatim>\<open>_filter_end_date\<close> keeps no record: on the first record
  of a non-empty list the comparison with \<^verbatim>\<open>None\<close> raises TypeError. (With a date set it
  keeps the records dated up to and including it, as \<open>filter_end_date_Some\<close> says.)
\<close>

theorem filter_end_date_unset_fails:
  "filter_end_date None (tx # txns) = Inl TypeError"
  by (simp add: end_date_cond_def)

section \<open>The conversion splitter on its inputs\<close>






text \<open>
  C6. On the record Convert 1 BTC at price 100 with the note "Converted 1 BTC to 20 ETH"
  the splitter does not yield the two records: the quantity is formatted as \<^verbatim>\<open>1.0\<close>, the
  prefix "Converted 1.0 BTC to " is not found, the first token of the note is
  \<^verbatim>\<open>Converted\<close>, and \<^verbatim>\<open>float\<close> raises ValueError.
\<close>

theorem split_scenario_fails:
  "float_str (quantity_transacted btc_convert) = ''1.0''
   \<and> parsed_notes btc_convert = [''Converted'', ''1'', ''BTC'', ''to'', ''20'', ''ETH'']
   \<and> split_conversion [btc_convert] = Inl ValueError"
  by code_simp

section \<open>The assembled ledger\<close>

text \<open>
  C7. Whatever the raw records and the filter arguments, a ledger returned by \<^verbatim>\<open>parse\<close>
  holds records of type Receive and Send only, none of type Convert.
\<close>

theorem parse_no_convert:
  assumes "parse raw type_arg asset_arg end_date = Inr out"
  shows "\<forall>tx \<in> set out. transaction_type tx = Receive \<or> transaction_type tx = Send"
proof
  fix tx assume tx: "tx \<in> set out"
  from assms obtain txns pre where pre: "split_conversion txns = Inr pre"
    and out: "out = sort_key timestamp pre"
    by (auto simp: parse_def parse_unsorted_def split: sum.splits)
  from tx out have "tx \<in> set pre" by simp
  from split_conversion_types[OF pre this]
  show "transaction_type tx = Receive \<or> transaction_type tx = Send"
    by (cases "transaction_type tx") auto
qed

theorem parse_no_convert_witness:
  "parse [btc_convert_half, eth_receive] None None (Some 1) =
     Inr [eth_receive,
          btc_convert_half\<lparr>transaction_type := Send\<rparr>,
          btc_convert_half\<lparr>transaction_type := Receive, asset := ''ETH'',
            quantity_transacted := 20, spot_price := 5 / 2\<rparr>]
   \<and> transaction_type eth_receive = Receive
   \<and> transaction_type (btc_convert_half\<lparr>transaction_type := Send\<rparr>) = Send
   \<and> transaction_type (btc_convert_half\<lparr>transaction_type := Receive, asset := ''ETH'',
            quantity_transacted := 20, spot_price := 5 / 2\<rparr>) = Receive"
proof -
  let ?s = "btc_convert_half\<lparr>transaction_type := Send\<rparr>"
  let ?r = "btc_convert_half\<lparr>transaction_type := Receive, asset := ''ETH'',
            quantity_transacted := 20, spot_price := 5 / 2\<rparr>"
  have p: "parse [btc_convert_half, eth_receive] None None (Some 1) = Inr [eth_receive, ?s, ?r]"
    by code_simp
  from parse_no_convert[OF p]
  have "transaction_type eth_receive = Receive \<or> transaction_type eth_receive = Send" by simp
  then have "transaction_type eth_receive = Receive" by (simp add: eth_receive_def)
  with p show ?thesis by simp
qed

text \<open>
  C8. A ledger returned by \<^verbatim>\<open>parse\<close> is ascending by timestamp, every record's timestamp
  being at most that of the next one, and the sort is stable: the records with any one
  timestamp stand in the order in which the splitter yielded them.
\<close>

theorem parse_sorted_stable:
  assumes "parse raw type_arg asset_arg end_date = Inr out"
  shows "sorted (map timestamp out)
         \<and> (\<forall>i. Suc i < length out \<longrightarrow> timestamp (out ! i) \<le> timestamp (out ! Suc i))
         \<and> (\<exists>pre. parse_unsorted raw type_arg asset_arg end_date = Inr pre
                \<and> (\<forall>t. filter (\<lambda>tx. timestamp tx = t) out = filter (\<lambda>tx. timestamp tx = t) pre))"
proof -
  from assms obtain pre where pre: "parse_unsorted raw type_arg asset_arg end_date = Inr pre"
    and out: "out = sort_key timestamp pre"
    by (auto simp: parse_def split: sum.splits)
  have s: "sorted (map timestamp out)" by (simp add: out)
  have a: "\<forall>i. Suc i < length out \<longrightarrow> timestamp (out ! i) \<le> timestamp (out ! Suc i)"
  proof (intro allI impI)
    fix i assume i: "Suc i < length out"
    from s i have "map timestamp out ! i \<le> map timestamp out ! Suc i"
      by (intro sorted_nth_mono) auto
    with i show "timestamp (out ! i) \<le> timestamp (out ! Suc i)" by simp
  qed
  have "\<forall>t. filter (\<lambda>tx. timestamp tx = t) out = filter (\<lambda>tx. timestamp tx = t) pre"
    by (simp add: out sort_key_stable)
  with s a pre show ?thesis by blast
qed

theorem parse_sorted_stable_witness:
  "parse [btc_convert_half, eth_receive] None None (Some 1) =
     Inr [eth_receive,
          btc_convert_half\<lparr>transaction_type := Send\<rparr>,
          btc_convert_half\<lparr>transaction_type := Receive, asset := ''ETH'',
            quantity_transacted := 20, spot_price := 5 / 2\<rparr>]
   \<and> parse_unsorted [btc_convert_half, eth_receive] None None (Some 1) =
     Inr [btc_convert_half\<lparr>transaction_type := Send\<rparr>,
          btc_convert_half\<lparr>transaction_type := Receive, asset := ''ETH'',
            quantity_transacted := 20, spot_price := 5 / 2\<rparr>,
          eth_receive]
   \<and> sorted (map timestamp [eth_receive,
          btc_convert_half\<lparr>transaction_type := Send\<rparr>,
          btc_convert_half\<lparr>transaction_type := Receive, asset := ''ETH'',
            quantity_transacted := 20, spot_price := 5 / 2\<rparr>])
   \<and> filter (\<lambda>tx. timestamp tx = day) [eth_receive,
          btc_convert_half\<lparr>transaction_type := Send\<rparr>,
          btc_convert_half\<lparr>transaction_type := Receive, asset := ''ETH'',
            quantity_transacted := 20, spot_price := 5 / 2\<rparr>]
     = [btc_convert_half\<lparr>transaction_type := Send\<rparr>,
          btc_convert_half\<lparr>transaction_type := Receive, asset := ''ETH'',
            quantity_transacted := 20, spot_price := 5 / 2\<rparr>]"
proof -
  let ?s = "btc_convert_half\<lparr>transaction_type := Send\<rparr>"
  let ?r = "btc_convert_half\<lparr>transaction_type := Receive, asset := ''ETH'',
            quantity_transacted := 20, spot_price := 5 / 2\<rparr>"
  have p: "parse [btc_convert_half, eth_receive] None None (Some 1) = Inr [eth_receive, ?s, ?r]"
    by code_simp
  have u: "parse_unsorted [btc_convert_half, eth_receive] None None (Some 1)
             = Inr [?s, ?r, eth_receive]"
    by code_simp
  have f: "filter (\<lambda>tx. timestamp tx = day) [?s, ?r, eth_receive] = [?s, ?r]"
    by (simp add: btc_convert_half_def eth_receive_def day_def)
  from parse_sorted_stable[OF p] u f p show ?thesis by auto
qed

section \<open>The capital gains accumulator and the sum\<close>

text \<open>
  C5. On the ledger [Receive BTC 1 at price 0, Receive BTC 1 at price 100] the second
  record, on an asset seen before, adds nothing to the gain of BTC: the tracked value 0
  left by the first record makes \<^verbatim>\<open>first_purchase\<close> true again, where the claim has
  (100 - 0) * 1 = 100 added. \<^verbatim>\<open>Cli.cg\<close> on these two records, with an end date after both,
  prints the gain 0 for BTC and the total 0.
\<close>

theorem cg_zero_price_baseline:
  "cg_gains [btc_free, btc_bought] = Inr [''BTC'' \<mapsto> 0]
   \<and> Cli_cg [btc_free, btc_bought] None (Some 1) = Inr ([''BTC'' \<mapsto> 0], 0)"
proof -
  have g: "cg_gains [btc_free, btc_bought] = Inr [''BTC'' \<mapsto> 0]"
    by (simp add: cg_gains_def cg_init_def cg_step_def btc_free_def btc_bought_def)
  have p: "parse [btc_free, btc_bought] None None (Some 1) = Inr [btc_free, btc_bought]"
    by code_simp
  have a: "asset btc_free = ''BTC''" "asset btc_bought = ''BTC''"
    by (simp_all add: btc_free_def btc_bought_def)
  from g p a show ?thesis by (simp add: Cli_cg_def)
qed

text \<open>
  C9. \<^verbatim>\<open>Cli.sum\<close> does not use its \<^verbatim>\<open>end_date\<close> argument: it does what it does with the
  end date unset, which on the ledger [Receive ETH 2 at day 0, Send ETH 1 at day 1] and
  any end date is to fail with TypeError in the end-date filter.
\<close>

theorem sum_ignores_end_date:
  "Cli_sum raw type_arg asset_arg end_date = Cli_sum raw type_arg asset_arg None
   \<and> Cli_sum [eth_receive, eth_send] None None (Some 0) = Inl TypeError"
  by (simp add: Cli_sum_def parse_def parse_unsorted_def end_date_cond_def)

end
